theory Spec2Isabelle
  imports Main "HOL-Library.AList" "HOL-Library.List_Lexorder" "HOL-Library.Char_ord"
    "HOL-Library.Multiset" "HOL-Library.Sublist" "HOL-Library.Product_Lexorder"
begin

section \<open>Formatting helpers (fmt.Sprintf verbs, strings.Join)\<close>

text \<open>The verb \<open>%d\<close> of \<open>fmt.Sprintf\<close> on an integer: decimal digits, most significant
  first, with a leading minus sign for negative values.\<close>

function showNat :: "nat \<Rightarrow> string" where
  "showNat n = (if n < 10 then [''0123456789'' ! n]
                else showNat (n div 10) @ [''0123456789'' ! (n mod 10)])"
  by pat_completeness auto
termination
  by (relation "measure id") auto

declare showNat.simps [simp del]

definition showInt :: "int \<Rightarrow> string" where
  "showInt i = (if i < 0 then CHR ''-'' # showNat (nat (- i)) else showNat (nat i))"

text \<open>\<open>strings.Join(elems, sep)\<close>.\<close>

fun Join :: "string list \<Rightarrow> string \<Rightarrow> string" where
  "Join [] sep = []"
| "Join [x] sep = x"
| "Join (x # y # ys) sep = x @ sep @ Join (y # ys) sep"

section \<open>Errors and panics\<close>

text \<open>What the cluster client reports, the wrapping done by \<open>fmt.Errorf("...: %v", err)\<close>, and
  the two run-time panics the program can raise.\<close>

datatype api_error = NotFound | PermissionDenied | Unavailable | BadRequest

datatype error =
  ApiError api_error
| Errorf string error
| NilPointerDereference
| IndexOutOfRange

section \<open>Kubernetes objects (the fields the program reads)\<close>

text \<open>A Go \<open>map[string]string\<close> is an association list read through \<open>map_of\<close>.\<close>

type_synonym labels = "(string \<times> string) list"

record Volume =
  vol_Name :: string
  vol_ConfigMap :: "string option"  \<comment> \<open>\<open>volume.ConfigMap\<close>: \<open>None\<close> is nil, else its \<open>Name\<close>\<close>

record EnvFromSource =
  ConfigMapRef :: "string option"   \<comment> \<open>\<open>envFrom.ConfigMapRef\<close>: nil, or its \<open>Name\<close>\<close>

record EnvVarSource =
  ConfigMapKeyRef :: "string option" \<comment> \<open>\<open>ValueFrom.ConfigMapKeyRef\<close>: nil, or its \<open>Name\<close>\<close>

record EnvVar =
  env_Name :: string
  ValueFrom :: "EnvVarSource option"

record Container =
  EnvFrom :: "EnvFromSource list"
  Env :: "EnvVar list"

record PodSpec =
  Volumes :: "Volume list"
  Containers :: "Container list"

record Pod =
  pod_Name :: string
  pod_Namespace :: string
  pod_Labels :: labels
  pod_Spec :: PodSpec
  pod_Phase :: string
  pod_Conditions :: "(string \<times> string) list"  \<comment> \<open>(condition type, condition status)\<close>

datatype IntOrStringType = intstr_Int | intstr_String

record IntOrString =
  ios_Type :: IntOrStringType
  IntVal :: int
  StrVal :: string

record ServicePort =
  Port :: int
  TargetPort :: IntOrString
  Protocol :: string

record Service =
  svc_Name :: string
  svc_Namespace :: string
  svc_Labels :: labels
  svc_Type :: string            \<comment> \<open>\<open>Spec.Type\<close>\<close>
  Selector :: "labels option"   \<comment> \<open>\<open>Spec.Selector\<close>; \<open>None\<close> is the nil map\<close>
  Ports :: "ServicePort list"   \<comment> \<open>\<open>Spec.Ports\<close>\<close>

record IngressServiceBackend =
  isb_Name :: string
  isb_PortNumber :: int

record IngressBackend =
  bk_Service :: "IngressServiceBackend option"

record HTTPIngressPath =
  Path :: string
  Backend :: IngressBackend

record IngressRule =
  Host :: string
  HTTP :: "HTTPIngressPath list option"  \<comment> \<open>\<open>rule.HTTP\<close>: nil, or its \<open>Paths\<close>\<close>

record IngressTLS =
  Hosts :: "string list"
  SecretName :: string

record Ingress =
  ing_Name :: string
  ing_Namespace :: string
  ing_Labels :: labels
  TLS :: "IngressTLS list"
  Rules :: "IngressRule list"
  DefaultBackend :: "IngressBackend option"

record Deployment =
  dep_Name :: string
  dep_Namespace :: string
  dep_Labels :: labels
  Replicas :: "int option"      \<comment> \<open>\<open>Spec.Replicas\<close> is a pointer; \<open>None\<close> is nil\<close>
  Template :: PodSpec           \<comment> \<open>\<open>Spec.Template.Spec\<close>\<close>
  ReadyReplicas :: int

record ConfigMap =
  cm_Name :: string
  cm_Namespace :: string
  cm_Labels :: labels

record Secret =
  sec_Name :: string
  sec_Namespace :: string
  sec_Labels :: labels

section \<open>package types\<close>

type_synonym ResourceType = string

definition ResourceTypeNamespace :: ResourceType where "ResourceTypeNamespace = ''Namespace''"
definition ResourceTypePod :: ResourceType where "ResourceTypePod = ''Pod''"
definition ResourceTypeService :: ResourceType where "ResourceTypeService = ''Service''"
definition ResourceTypeIngress :: ResourceType where "ResourceTypeIngress = ''Ingress''"
definition ResourceTypeConfigMap :: ResourceType where "ResourceTypeConfigMap = ''ConfigMap''"
definition ResourceTypeDeployment :: ResourceType where "ResourceTypeDeployment = ''Deployment''"
definition ResourceTypeHPA :: ResourceType where "ResourceTypeHPA = ''HPA''"
definition ResourceTypeSecret :: ResourceType where "ResourceTypeSecret = ''Secret''"

lemmas ResourceType_defs =
  ResourceTypeNamespace_def ResourceTypePod_def ResourceTypeService_def ResourceTypeIngress_def
  ResourceTypeConfigMap_def ResourceTypeDeployment_def ResourceTypeHPA_def ResourceTypeSecret_def

text \<open>\<open>Resource.Data\<close> is an \<open>interface{}\<close>: the dynamic type is either the object struct or a
  pointer to it, and a type assertion such as \<open>Data.(corev1.Service)\<close> only succeeds on the
  struct itself.\<close>

datatype object =
  PodObj Pod | ServiceObj Service | IngressObj Ingress | DeploymentObj Deployment
| ConfigMapObj ConfigMap | SecretObj Secret

datatype payload = NoData | Value object | Pointer object

record ResourceStatus =
  Phase :: string
  Ready :: bool
  Details :: string

text \<open>The zero value a Go struct literal leaves in \<open>Status\<close> when the field is not set.\<close>

definition zeroStatus :: ResourceStatus where
  "zeroStatus = \<lparr>Phase = [], Ready = False, Details = []\<rparr>"

text \<open>A resource with the five fields of \<open>types.Resource\<close> and the field \<open>Status\<close> that the
  processors fill. They also fill a field \<open>Metrics\<close>; no operation here reads it and it is
  left out.\<close>

record Resource =
  Type :: ResourceType
  Name :: string
  Namespace :: string
  Labels :: labels
  Data :: payload
  Status :: ResourceStatus

type_synonym RelationshipType = string

definition RelationshipTypeOwns :: RelationshipType where "RelationshipTypeOwns = ''owns''"
definition RelationshipTypeUses :: RelationshipType where "RelationshipTypeUses = ''uses''"
definition RelationshipTypeExposes :: RelationshipType where "RelationshipTypeExposes = ''exposes''"
definition RelationshipTypeTargets :: RelationshipType where "RelationshipTypeTargets = ''targets''"
definition RelationshipTypeProvides :: RelationshipType where "RelationshipTypeProvides = ''provides''"

lemmas RelationshipType_defs =
  RelationshipTypeOwns_def RelationshipTypeUses_def RelationshipTypeExposes_def
  RelationshipTypeTargets_def RelationshipTypeProvides_def

record Relationship =
  Source :: Resource
  Target :: Resource
  RelType :: RelationshipType   \<comment> \<open>the field \<open>Type\<close> of \<open>types.Relationship\<close>\<close>
  Description :: string

record ResourceMapping =
  Resources :: "Resource list"
  Relationships :: "Relationship list"

section \<open>package common: resource keys, the resource set, ProcessResources\<close>

text \<open>\<open>fmt.Sprintf("%s/%s/%s", resource.Type, resource.Namespace, resource.Name)\<close>.\<close>

definition ResourceKey :: "Resource \<Rightarrow> string" where
  "ResourceKey resource = Type resource @ ''/'' @ Namespace resource @ ''/'' @ Name resource"

text \<open>\<open>ResourceSet\<close> wraps a \<open>map[string]types.Resource\<close>. The map is an association list
  with one entry per key; assigning to a key replaces the entry in place or adds one. Every
  method takes the lock for its whole body, so each is one atomic step.\<close>

record ResourceSet =
  data :: "(string \<times> Resource) list"

definition NewResourceSet :: ResourceSet where
  "NewResourceSet = \<lparr>data = []\<rparr>"

definition Add :: "ResourceSet \<Rightarrow> Resource \<Rightarrow> ResourceSet" where
  "Add s resource = s\<lparr>data := AList.update (ResourceKey resource) resource (data s)\<rparr>"

definition Contains :: "ResourceSet \<Rightarrow> Resource \<Rightarrow> bool" where
  "Contains s resource = (map_of (data s) (ResourceKey resource) \<noteq> None)"







text \<open>The same collection loop at the grain of the lock. \<open>Contains\<close> and \<open>Add\<close> hold the lock
  for one call each, so another task can run between the check of a task and its insertion.
  A task is the resources it still has to collect and, once it has checked the first of
  them, the answer it got; the shared state is the set and \<open>result.Resources\<close>. A schedule
  names the task that takes the next step.\<close>

record CollectTask =
  todo :: "Resource list"
  answer :: "bool option"

definition taskStep ::
  "CollectTask \<Rightarrow> ResourceSet \<times> Resource list \<Rightarrow> CollectTask \<times> ResourceSet \<times> Resource list" where
  "taskStep t st =
     (case todo t of
        [] \<Rightarrow> (t, st)
      | resource # rest \<Rightarrow>
          (case answer t of
             None \<Rightarrow> (t\<lparr>answer := Some (Contains (fst st) resource)\<rparr>, st)
           | Some True \<Rightarrow> (\<lparr>todo = rest, answer = None\<rparr>, st)
           | Some False \<Rightarrow>
               (\<lparr>todo = rest, answer = None\<rparr>, Add (fst st) resource, snd st @ [resource])))"

fun interleave ::
  "nat list \<Rightarrow> CollectTask list \<times> ResourceSet \<times> Resource list
     \<Rightarrow> CollectTask list \<times> ResourceSet \<times> Resource list" where
  "interleave [] cfg = cfg"
| "interleave (i # schedule) (tasks, st) =
     (if i < length tasks
      then (case taskStep (tasks ! i) st of
              (t', st') \<Rightarrow> interleave schedule (tasks[i := t'], st'))
      else interleave schedule (tasks, st))"







section \<open>package utils: colours\<close>

definition ColorRed :: string where "ColorRed = CHR 0x1B # ''[0;31m''"
definition ColorGreen :: string where "ColorGreen = CHR 0x1B # ''[0;32m''"
definition ColorYellow :: string where "ColorYellow = CHR 0x1B # ''[1;33m''"
definition ColorBlue :: string where "ColorBlue = CHR 0x1B # ''[0;34m''"
definition ColorMagenta :: string where "ColorMagenta = CHR 0x1B # ''[0;35m''"
definition ColorCyan :: string where "ColorCyan = CHR 0x1B # ''[0;36m''"
definition ColorGray :: string where "ColorGray = CHR 0x1B # ''[0;37m''"
definition ColorReset :: string where "ColorReset = CHR 0x1B # ''[0m''"
definition ColorBoldRed :: string where "ColorBoldRed = CHR 0x1B # ''[1;31m''"
definition ColorBoldGreen :: string where "ColorBoldGreen = CHR 0x1B # ''[1;32m''"
definition ColorBoldBlue :: string where "ColorBoldBlue = CHR 0x1B # ''[1;34m''"

lemmas Color_defs =
  ColorRed_def ColorGreen_def ColorYellow_def ColorBlue_def ColorMagenta_def ColorCyan_def
  ColorGray_def ColorReset_def ColorBoldRed_def ColorBoldGreen_def ColorBoldBlue_def

definition Colorize :: "string \<Rightarrow> string \<Rightarrow> string" where
  "Colorize color text = color @ text @ ColorReset"

text \<open>The process-wide switch \<open>utils.DisableColors\<close> and the value \<open>utils.GetCurrentTime()\<close>
  returns at the moment of a call. \<open>GetCurrentTime\<close> is called by the renderer but its body is
  not part of the sources, so its result is an input of the rendering functions.\<close>

record Env =
  DisableColors :: bool
  CurrentTime :: string

text \<open>\<open>ColorizedPrintf(color, format, args)\<close> is \<open>Sprintf(color + format + ColorReset, args)\<close>,
  and \<open>Sprintf\<close> removes the escape sequences from the format when \<open>DisableColors\<close> is set.
  Every format the renderer passes is a literal without escape sequences, so the result is the
  formatted text, wrapped in the colour and the reset code unless colours are disabled. The
  third argument is the text the format and its arguments produce.\<close>

definition ColorizedPrintf :: "Env \<Rightarrow> string \<Rightarrow> string \<Rightarrow> string" where
  "ColorizedPrintf env color formatted =
     (if DisableColors env then formatted else color @ formatted @ ColorReset)"

definition ResourceColors :: "(string \<times> string) list" where
  "ResourceColors =
     [(''Namespace'', ColorCyan), (''Pod'', ColorGreen), (''Service'', ColorBlue),
      (''Ingress'', ColorMagenta), (''ConfigMap'', ColorYellow), (''Deployment'', ColorBoldBlue),
      (''HPA'', ColorBoldGreen), (''Secret'', ColorBoldRed), (''Default'', ColorGray)]"

definition GetResourceColor :: "string \<Rightarrow> string" where
  "GetResourceColor resourceType =
     (case map_of ResourceColors resourceType of
        Some color \<Rightarrow> color
      | None \<Rightarrow> the (map_of ResourceColors ''Default''))"

section \<open>package visualizer\<close>

definition NL :: string where "NL = [CHR 0x0A]"

definition indentSize :: nat where "indentSize = 4"
definition verticalLine :: string where "verticalLine = [CHR 0xE2, CHR 0x94, CHR 0x82]"
definition horizontalLine :: string where
  "horizontalLine = [CHR 0xE2, CHR 0x94, CHR 0x80, CHR 0xE2, CHR 0x94, CHR 0x80]"
definition cornerSymbol :: string where "cornerSymbol = [CHR 0xE2, CHR 0x94, CHR 0x94]"
definition branchSymbol :: string where "branchSymbol = [CHR 0xE2, CHR 0x94, CHR 0x9C]"
definition arrowSymbol :: string where "arrowSymbol = [CHR 0xE2, CHR 0x9E, CHR 0x9C]"
definition dotSymbol :: string where "dotSymbol = [CHR 0xE2, CHR 0x97, CHR 0x8F]"
definition warningSymbol :: string where "warningSymbol = [CHR 0xE2, CHR 0x9A, CHR 0xA0]"
definition successSymbol :: string where "successSymbol = [CHR 0xE2, CHR 0x9C, CHR 0x93]"
definition errorSymbol :: string where "errorSymbol = [CHR 0xE2, CHR 0x9C, CHR 0x97]"
definition detailsSymbol :: string where "detailsSymbol = [CHR 0xE2, CHR 0x84, CHR 0xB9]"

text \<open>The arrow of the port format and the autoscaler glyph, as UTF-8.\<close>

definition rightArrow :: string where "rightArrow = [CHR 0xE2, CHR 0x86, CHR 0x92]"
definition cycleSymbol :: string where "cycleSymbol = [CHR 0xE2, CHR 0x9F, CHR 0xB3]"

lemmas Symbol_defs =
  NL_def indentSize_def verticalLine_def horizontalLine_def cornerSymbol_def branchSymbol_def
  arrowSymbol_def dotSymbol_def warningSymbol_def successSymbol_def errorSymbol_def
  detailsSymbol_def rightArrow_def cycleSymbol_def

subsection \<open>Finding resources and relationships\<close>

record Visualizer =
  resourceMapping :: ResourceMapping
  showDetails :: bool
  colorOutput :: bool

definition NewVisualizer :: "ResourceMapping \<Rightarrow> Visualizer" where
  "NewVisualizer mapping = \<lparr>resourceMapping = mapping, showDetails = True, colorOutput = True\<rparr>"

text \<open>\<open>filterResourcesByType\<close> walks the resources of the mapping and appends the ones of the
  wanted type to the slice \<open>filtered\<close>.\<close>

fun filterByTypeLoop :: "ResourceType \<Rightarrow> Resource list \<Rightarrow> Resource list \<Rightarrow> Resource list" where
  "filterByTypeLoop resourceType filtered [] = filtered"
| "filterByTypeLoop resourceType filtered (r # rest) =
     filterByTypeLoop resourceType
       (if Type r = resourceType then filtered @ [r] else filtered) rest"

definition filterResourcesByType :: "Visualizer \<Rightarrow> ResourceType \<Rightarrow> Resource list" where
  "filterResourcesByType v resourceType =
     filterByTypeLoop resourceType [] (Resources (resourceMapping v))"

definition findRelationships ::
  "Visualizer \<Rightarrow> Resource \<Rightarrow> RelationshipType \<Rightarrow> Relationship list" where
  "findRelationships v source relType =
     filter (\<lambda>r. Name (Source r) = Name source \<and> Type (Source r) = Type source \<and> RelType r = relType)
       (Relationships (resourceMapping v))"

definition findRelationshipsForTarget ::
  "Visualizer \<Rightarrow> Resource \<Rightarrow> RelationshipType \<Rightarrow> Relationship list" where
  "findRelationshipsForTarget v target relType =
     filter (\<lambda>r. Name (Target r) = Name target \<and> Type (Target r) = Type target \<and> RelType r = relType)
       (Relationships (resourceMapping v))"

subsection \<open>Helpers\<close>

definition formatResource :: "Env \<Rightarrow> Resource \<Rightarrow> string" where
  "formatResource env r =
     ColorizedPrintf env (GetResourceColor (Type r)) (Type r @ ''/'' @ Name r)"

definition getPrefix :: "bool \<Rightarrow> string" where
  "getPrefix isLast =
     (if isLast then cornerSymbol @ horizontalLine @ '' ''
      else branchSymbol @ horizontalLine @ '' '')"

definition getIndent :: "bool \<Rightarrow> string" where
  "getIndent isLast =
     (if isLast then replicate indentSize CHR '' ''
      else verticalLine @ replicate (indentSize - 1) CHR '' '')"

definition colorize :: "Visualizer \<Rightarrow> string \<Rightarrow> string \<Rightarrow> string" where
  "colorize v color text = (if \<not> colorOutput v then text else Colorize color text)"

definition getPodStatusSymbol :: "Visualizer \<Rightarrow> string \<Rightarrow> string" where
  "getPodStatusSymbol v phase =
     (if phase = ''Running'' then colorize v ColorGreen successSymbol
      else if phase = ''Pending'' then colorize v ColorYellow warningSymbol
      else colorize v ColorRed errorSymbol)"

definition getDeploymentStatusSymbol :: "Visualizer \<Rightarrow> int \<Rightarrow> int \<Rightarrow> string" where
  "getDeploymentStatusSymbol v ready desired =
     (if ready = desired then colorize v ColorGreen successSymbol
      else if ready > 0 then colorize v ColorYellow warningSymbol
      else colorize v ColorRed errorSymbol)"

text \<open>\<open>formatPorts\<close>: the loop appends one formatted string per port, then the strings are
  joined. The accumulator is the slice \<open>portStrings\<close>.\<close>

fun portStringsLoop :: "string list \<Rightarrow> ServicePort list \<Rightarrow> string list" where
  "portStringsLoop portStrings [] = portStrings"
| "portStringsLoop portStrings (port # rest) =
     portStringsLoop
       (portStrings @ [showInt (Port port) @ rightArrow @ showInt (IntVal (TargetPort port))
                         @ ''/'' @ Protocol port])
       rest"

definition viz_formatPorts :: "ServicePort list \<Rightarrow> string" where
  "viz_formatPorts ports = Join (portStringsLoop [] ports) '', ''"

subsection \<open>The four layers\<close>

fun ingressRelLines :: "Visualizer \<Rightarrow> Env \<Rightarrow> bool \<Rightarrow> Relationship list \<Rightarrow> string" where
  "ingressRelLines v env isLast [] = []"
| "ingressRelLines v env isLast (rel # rest) =
     getIndent (isLast \<and> rest = []) @ ''  '' @ colorize v ColorBlue arrowSymbol @ '' ''
       @ formatResource env (Target rel) @ '' via '' @ Description rel @ NL
     @ ingressRelLines v env isLast rest"

fun ingressItems :: "Visualizer \<Rightarrow> Env \<Rightarrow> Resource list \<Rightarrow> string" where
  "ingressItems v env [] = []"
| "ingressItems v env (ingress # rest) =
     getPrefix (rest = []) @ colorize v ColorMagenta dotSymbol @ '' ''
       @ formatResource env ingress @ NL
     @ (case Data ingress of
          Value (IngressObj ing) \<Rightarrow>
            if length (TLS ing) > 0
            then getIndent (rest = []) @ ''  '' @ colorize v ColorGreen successSymbol
                   @ '' TLS Enabled'' @ NL
            else []
        | _ \<Rightarrow> [])
     @ ingressRelLines v env (rest = []) (findRelationships v ingress RelationshipTypeExposes)
     @ ingressItems v env rest"

definition renderIngressLayer :: "Visualizer \<Rightarrow> Env \<Rightarrow> string" where
  "renderIngressLayer v env =
     ColorizedPrintf env ColorBlue (''[Ingress Layer]'' @ NL)
     @ ingressItems v env (filterResourcesByType v ResourceTypeIngress)"

fun serviceRelLines :: "Visualizer \<Rightarrow> Env \<Rightarrow> bool \<Rightarrow> Relationship list \<Rightarrow> string" where
  "serviceRelLines v env isLast [] = []"
| "serviceRelLines v env isLast (rel # rest) =
     getIndent (isLast \<and> rest = []) @ ''  '' @ colorize v ColorGreen arrowSymbol @ '' ''
       @ formatResource env (Target rel) @ NL
     @ (case Data (Target rel) of
          Value (PodObj pod) \<Rightarrow>
            getIndent (isLast \<and> rest = []) @ ''     '' @ getPodStatusSymbol v (pod_Phase pod)
              @ '' '' @ pod_Phase pod @ NL
        | _ \<Rightarrow> [])
     @ serviceRelLines v env isLast rest"

fun serviceItems :: "Visualizer \<Rightarrow> Env \<Rightarrow> Resource list \<Rightarrow> string" where
  "serviceItems v env [] = []"
| "serviceItems v env (svc # rest) =
     getPrefix (rest = []) @ colorize v ColorBlue dotSymbol @ '' '' @ formatResource env svc @ NL
     @ (if showDetails v
        then (case Data svc of
                Value (ServiceObj s) \<Rightarrow>
                  getIndent (rest = []) @ ''  '' @ colorize v ColorGray detailsSymbol
                    @ '' Type: '' @ svc_Type s @ NL
                  @ getIndent (rest = []) @ ''  '' @ colorize v ColorGray detailsSymbol
                    @ '' Ports: '' @ viz_formatPorts (Ports s) @ NL
              | _ \<Rightarrow> [])
        else [])
     @ serviceRelLines v env (rest = []) (findRelationships v svc RelationshipTypeTargets)
     @ serviceItems v env rest"

definition renderServiceLayer :: "Visualizer \<Rightarrow> Env \<Rightarrow> string" where
  "renderServiceLayer v env =
     ColorizedPrintf env ColorBlue (''[Service Layer]'' @ NL)
     @ serviceItems v env (filterResourcesByType v ResourceTypeService)"

text \<open>The detail line of a Deployment. \<open>*d.Spec.Replicas\<close> dereferences a pointer and panics
  when it is nil.\<close>

definition deploymentDetails :: "Visualizer \<Rightarrow> bool \<Rightarrow> Resource \<Rightarrow> error + string" where
  "deploymentDetails v isLast deploy =
     (if showDetails v
      then (case Data deploy of
              Value (DeploymentObj d) \<Rightarrow>
                (case Replicas d of
                   None \<Rightarrow> Inl NilPointerDereference
                 | Some desiredReplicas \<Rightarrow>
                     Inr (getIndent isLast @ ''  ''
                          @ getDeploymentStatusSymbol v (ReadyReplicas d) desiredReplicas @ '' ''
                          @ showInt (ReadyReplicas d) @ ''/'' @ showInt desiredReplicas
                          @ '' replicas ready'' @ NL))
            | _ \<Rightarrow> Inr [])
      else Inr [])"

fun hpaRelLines :: "Visualizer \<Rightarrow> bool \<Rightarrow> Relationship list \<Rightarrow> string" where
  "hpaRelLines v isLast [] = []"
| "hpaRelLines v isLast (rel # rest) =
     (if Type (Source rel) = ResourceTypeHPA
      then getIndent isLast @ ''  '' @ colorize v ColorCyan cycleSymbol @ '' ''
             @ Description rel @ NL
      else [])
     @ hpaRelLines v isLast rest"

fun podRelLines :: "Visualizer \<Rightarrow> Env \<Rightarrow> bool \<Rightarrow> Relationship list \<Rightarrow> string" where
  "podRelLines v env isLast [] = []"
| "podRelLines v env isLast (rel # rest) =
     getIndent (isLast \<and> rest = []) @ ''  '' @ colorize v ColorGreen arrowSymbol @ '' ''
       @ formatResource env (Target rel) @ NL
     @ podRelLines v env isLast rest"

fun workloadItems :: "Visualizer \<Rightarrow> Env \<Rightarrow> Resource list \<Rightarrow> error + string" where
  "workloadItems v env [] = Inr []"
| "workloadItems v env (deploy # rest) =
     (case deploymentDetails v (rest = []) deploy of
        Inl e \<Rightarrow> Inl e
      | Inr details \<Rightarrow>
          (case workloadItems v env rest of
             Inl e \<Rightarrow> Inl e
           | Inr others \<Rightarrow>
               Inr (getPrefix (rest = []) @ colorize v ColorYellow dotSymbol @ '' ''
                      @ formatResource env deploy @ NL
                    @ details
                    @ hpaRelLines v (rest = [])
                        (findRelationships v deploy RelationshipTypeTargets)
                    @ podRelLines v env (rest = [])
                        (findRelationships v deploy RelationshipTypeOwns)
                    @ others)))"

definition renderWorkloadLayer :: "Visualizer \<Rightarrow> Env \<Rightarrow> error + string" where
  "renderWorkloadLayer v env =
     (case workloadItems v env (filterResourcesByType v ResourceTypeDeployment) of
        Inl e \<Rightarrow> Inl e
      | Inr items \<Rightarrow> Inr (ColorizedPrintf env ColorBlue (''[Workload Layer]'' @ NL) @ items))"

fun storageRelLines :: "Visualizer \<Rightarrow> Env \<Rightarrow> bool \<Rightarrow> Relationship list \<Rightarrow> string" where
  "storageRelLines v env isLast [] = []"
| "storageRelLines v env isLast (rel # rest) =
     getIndent (isLast \<and> rest = []) @ ''  '' @ colorize v ColorBlue arrowSymbol @ '' Used by ''
       @ formatResource env (Source rel) @ '' ('' @ Description rel @ '')'' @ NL
     @ storageRelLines v env isLast rest"

fun storageItems :: "Visualizer \<Rightarrow> Env \<Rightarrow> Resource list \<Rightarrow> string" where
  "storageItems v env [] = []"
| "storageItems v env (cm # rest) =
     getPrefix (rest = []) @ colorize v ColorYellow dotSymbol @ '' '' @ formatResource env cm @ NL
     @ storageRelLines v env (rest = [])
         (findRelationshipsForTarget v cm RelationshipTypeUses)
     @ storageItems v env rest"

definition renderStorageLayer :: "Visualizer \<Rightarrow> Env \<Rightarrow> string" where
  "renderStorageLayer v env =
     ColorizedPrintf env ColorBlue (''[Storage Layer]'' @ NL)
     @ storageItems v env (filterResourcesByType v ResourceTypeConfigMap)"

subsection \<open>The cluster view\<close>

definition renderHeader :: "Env \<Rightarrow> string" where
  "renderHeader env =
     ColorizedPrintf env ColorGreen ''Kubernetes Resource Map'' @ NL
     @ replicate 80 CHR ''-'' @ NL
     @ ColorizedPrintf env ColorGray (''Generated at: '' @ CurrentTime env)"

definition RenderClusterView :: "Visualizer \<Rightarrow> Env \<Rightarrow> error + string" where
  "RenderClusterView v env =
     (case renderWorkloadLayer v env of
        Inl e \<Rightarrow> Inl e
      | Inr workload \<Rightarrow>
          Inr (renderHeader env @ NL
               @ ''External Traffic'' @ NL
               @ verticalLine @ NL
               @ renderIngressLayer v env @ NL
               @ renderServiceLayer v env @ NL
               @ workload @ NL
               @ renderStorageLayer v env))"

section \<open>The cluster client\<close>

text \<open>Modelled from the spec: the Cluster Resource Provider (sections 4.1 and 6), that is the
  Kubernetes client and the API server behind it, is an external collaborator and not part of
  the sources. A cluster is the objects it holds; \<open>List\<close> returns the objects of a namespace in
  the cluster's order, \<open>Get\<close> the object of that namespace and name or \<open>NotFound\<close>, and every
  call for a kind and namespace listed in \<open>cl_failures\<close> fails with the error given there
  (\<open>PermissionDenied\<close>, \<open>Unavailable\<close>).\<close>

record Cluster =
  cl_namespaces :: "string list"
  cl_pods :: "Pod list"
  cl_services :: "Service list"
  cl_ingresses :: "Ingress list"
  cl_deployments :: "Deployment list"
  cl_secrets :: "Secret list"
  cl_failures :: "((string \<times> string) \<times> api_error) list"

text \<open>Modelled from the spec: the text of a label selector as \<open>metav1.FormatLabelSelector\<close>
  prints it and the server reads it. A selector with pairs prints as the list of its
  equalities; a selector without pairs prints as the marker \<open><none>\<close>, which the server rejects
  as unparsable; the empty text of a \<open>ListOptions\<close> without selector selects everything. A pod
  satisfies the equalities when its labels hold every pair (section 4.3: the pod's labels are a
  superset of the selector map, and an empty selector matches nothing).\<close>

datatype selector_text = Everything | NoneMarker | Equalities labels

definition FormatLabelSelector :: "labels \<Rightarrow> selector_text" where
  "FormatLabelSelector matchLabels =
     (if matchLabels = [] then NoneMarker else Equalities matchLabels)"

definition labelsMatch :: "labels \<Rightarrow> labels \<Rightarrow> bool" where
  "labelsMatch selector podLabels =
     list_all (\<lambda>k. map_of podLabels k = map_of selector k) (map fst selector)"

definition callFails :: "Cluster \<Rightarrow> string \<Rightarrow> string \<Rightarrow> api_error option" where
  "callFails c kind namespace = map_of (cl_failures c) (kind, namespace)"

definition PodsList :: "Cluster \<Rightarrow> string \<Rightarrow> selector_text \<Rightarrow> error + Pod list" where
  "PodsList c namespace selector =
     (case callFails c ''pods'' namespace of
        Some e \<Rightarrow> Inl (ApiError e)
      | None \<Rightarrow>
          (case selector of
             NoneMarker \<Rightarrow> Inl (ApiError BadRequest)
           | Everything \<Rightarrow> Inr (filter (\<lambda>pod. pod_Namespace pod = namespace) (cl_pods c))
           | Equalities sel \<Rightarrow>
               Inr (filter (\<lambda>pod. pod_Namespace pod = namespace \<and> labelsMatch sel (pod_Labels pod))
                      (cl_pods c))))"

definition IngressesList :: "Cluster \<Rightarrow> string \<Rightarrow> error + Ingress list" where
  "IngressesList c namespace =
     (case callFails c ''ingresses'' namespace of
        Some e \<Rightarrow> Inl (ApiError e)
      | None \<Rightarrow> Inr (filter (\<lambda>ing. ing_Namespace ing = namespace) (cl_ingresses c)))"

definition ServicesList :: "Cluster \<Rightarrow> string \<Rightarrow> error + Service list" where
  "ServicesList c namespace =
     (case callFails c ''services'' namespace of
        Some e \<Rightarrow> Inl (ApiError e)
      | None \<Rightarrow> Inr (filter (\<lambda>svc. svc_Namespace svc = namespace) (cl_services c)))"



definition SecretsGet :: "Cluster \<Rightarrow> string \<Rightarrow> string \<Rightarrow> error + Secret" where
  "SecretsGet c namespace name =
     (case callFails c ''secrets'' namespace of
        Some e \<Rightarrow> Inl (ApiError e)
      | None \<Rightarrow>
          (case find (\<lambda>s. sec_Namespace s = namespace \<and> sec_Name s = name) (cl_secrets c) of
             None \<Rightarrow> Inl (ApiError NotFound)
           | Some s \<Rightarrow> Inr s))"

definition NamespacesGet :: "Cluster \<Rightarrow> string \<Rightarrow> error + string" where
  "NamespacesGet c name =
     (case callFails c ''namespaces'' [] of
        Some e \<Rightarrow> Inl (ApiError e)
      | None \<Rightarrow> if name \<in> set (cl_namespaces c) then Inr name else Inl (ApiError NotFound))"

definition NamespacesList :: "Cluster \<Rightarrow> error + string list" where
  "NamespacesList c =
     (case callFails c ''namespaces'' [] of
        Some e \<Rightarrow> Inl (ApiError e)
      | None \<Rightarrow> Inr (cl_namespaces c))"

text \<open>The requests a processor sends, recorded so that a property can speak about the calls
  that are made and those that are not.\<close>

datatype api_call =
  ListPods string selector_text
| ListIngresses string
| ListServices string
| ListDeployments string
| GetService string string
| GetSecret string string

text \<open>The state of a kind processor: the two slices behind its mutex, and the requests it
  has sent so far.\<close>

record Processor =
  resources :: "Resource list"
  relations :: "Relationship list"
  calls :: "api_call list"

definition NewProcessor :: Processor where
  "NewProcessor = \<lparr>resources = [], relations = [], calls = []\<rparr>"

definition addResource :: "Resource \<Rightarrow> Processor \<Rightarrow> Processor" where
  "addResource resource p = p\<lparr>resources := resources p @ [resource]\<rparr>"

definition addRelationship :: "Relationship \<Rightarrow> Processor \<Rightarrow> Processor" where
  "addRelationship rel p = p\<lparr>relations := relations p @ [rel]\<rparr>"

definition request :: "api_call \<Rightarrow> Processor \<Rightarrow> Processor" where
  "request call p = p\<lparr>calls := calls p @ [call]\<rparr>"

section \<open>package mapper: DeploymentProcessor\<close>

text \<open>\<open>getDeploymentStatus\<close>. The replica counts are \<open>int32\<close>; they are only compared and printed,
  so they are integers here. The first use of \<open>*deploy.Spec.Replicas\<close> panics on a nil pointer.\<close>

definition getDeploymentStatus :: "Deployment \<Rightarrow> error + ResourceStatus" where
  "getDeploymentStatus deploy =
     (case Replicas deploy of
        None \<Rightarrow> Inl NilPointerDereference
      | Some replicas \<Rightarrow>
          (let status = \<lparr>Phase = ''Unknown'', Ready = False, Details = []\<rparr>;
               status =
                 (if ReadyReplicas deploy = replicas
                  then status\<lparr>Phase := ''Ready'', Ready := True\<rparr>
                  else if ReadyReplicas deploy > 0
                  then status\<lparr>Phase := ''PartiallyReady'', Ready := False\<rparr>
                  else status\<lparr>Phase := ''NotReady'', Ready := False\<rparr>)
           in Inr (status\<lparr>Details :=
                     showInt (ReadyReplicas deploy) @ ''/'' @ showInt replicas
                       @ '' replicas ready''\<rparr>)))"

fun isPodReadyLoop :: "(string \<times> string) list \<Rightarrow> bool" where
  "isPodReadyLoop [] = False"
| "isPodReadyLoop (condition # rest) =
     (if fst condition = ''Ready'' then snd condition = ''True'' else isPodReadyLoop rest)"

definition isPodReady :: "Pod \<Rightarrow> bool" where
  "isPodReady pod = isPodReadyLoop (pod_Conditions pod)"

section \<open>package mapper: ServiceProcessor\<close>

text \<open>\<open>formatPorts\<close> of the service processor: the same loop as the renderer's, with the
  accumulator \<open>portStr\<close>.\<close>

fun portStrLoop :: "string list \<Rightarrow> ServicePort list \<Rightarrow> string list" where
  "portStrLoop portStr [] = portStr"
| "portStrLoop portStr (port # rest) =
     portStrLoop
       (portStr @ [showInt (Port port) @ rightArrow @ showInt (IntVal (TargetPort port))
                     @ ''/'' @ Protocol port])
       rest"

definition formatPorts :: "ServicePort list \<Rightarrow> string" where
  "formatPorts ports = Join (portStrLoop [] ports) '', ''"

text \<open>The resource and the edge \<open>processPods\<close> builds for one pod of the list.\<close>

definition podResource :: "Pod \<Rightarrow> Resource" where
  "podResource pod =
     \<lparr>Type = ResourceTypePod, Name = pod_Name pod, Namespace = pod_Namespace pod,
      Labels = pod_Labels pod, Data = Value (PodObj pod),
      Status = \<lparr>Phase = pod_Phase pod, Ready = isPodReady pod, Details = []\<rparr>\<rparr>"

fun processPodsLoop :: "Service \<Rightarrow> Resource \<Rightarrow> Pod list \<Rightarrow> Processor \<Rightarrow> Processor" where
  "processPodsLoop svc svcResource [] p = p"
| "processPodsLoop svc svcResource (pod # rest) p =
     processPodsLoop svc svcResource rest
       (addRelationship
          \<lparr>Source = svcResource, Target = podResource pod, RelType = RelationshipTypeTargets,
           Description = ''routes traffic to pod: '' @ formatPorts (Ports svc)\<rparr>
          (addResource (podResource pod) p))"

text \<open>\<open>ServiceProcessor.processPods\<close>: nothing to do for a nil selector; otherwise the pods of
  the service's namespace that the selector text selects are listed, and each gets a resource
  and a Targets edge. The first component of the result is the returned error.\<close>

definition processPods ::
  "Cluster \<Rightarrow> Service \<Rightarrow> Resource \<Rightarrow> Processor \<Rightarrow> error option \<times> Processor" where
  "processPods c svc svcResource p =
     (case Selector svc of
        None \<Rightarrow> (None, p)
      | Some sel \<Rightarrow>
          (let selector = FormatLabelSelector sel;
               p1 = request (ListPods (svc_Namespace svc) selector) p
           in case PodsList c (svc_Namespace svc) selector of
                Inl err \<Rightarrow> (Some (Errorf ''failed to list pods'' err), p1)
              | Inr pods \<Rightarrow> (None, processPodsLoop svc svcResource pods p1)))"

subsection \<open>The earlier ServiceProcessor (one sequential \<open>Process\<close>)\<close>

text \<open>This variant keeps no status, stores the objects themselves as payload, and lists with
  the namespace it was called for. \<open>svc.Spec.Ports[0]\<close> panics on a service without ports and
  \<open>path.Backend.Service.Name\<close> on a path whose backend is not a service; a failing list inside
  the loop skips the rest of that service (\<open>continue\<close>). A result \<open>Inl\<close> is a returned error or
  a panic.\<close>

definition legacyResource :: "ResourceType \<Rightarrow> string \<Rightarrow> string \<Rightarrow> labels \<Rightarrow> object \<Rightarrow> Resource" where
  "legacyResource ty name namespace ls obj =
     \<lparr>Type = ty, Name = name, Namespace = namespace, Labels = ls, Data = Value obj,
      Status = zeroStatus\<rparr>"

fun legacyPodsLoop :: "Service \<Rightarrow> Resource \<Rightarrow> Pod list \<Rightarrow> Processor \<Rightarrow> error + Processor" where
  "legacyPodsLoop svc svcResource [] p = Inr p"
| "legacyPodsLoop svc svcResource (pod # rest) p =
     (case Ports svc of
        [] \<Rightarrow> Inl IndexOutOfRange
      | port0 # _ \<Rightarrow>
          legacyPodsLoop svc svcResource rest
            (p\<lparr>relations := relations p @
                 [\<lparr>Source = svcResource,
                   Target = legacyResource ResourceTypePod (pod_Name pod) (pod_Namespace pod)
                              (pod_Labels pod) (PodObj pod),
                   RelType = RelationshipTypeTargets,
                   Description = ''exposes port '' @ showInt (Port port0)\<rparr>]\<rparr>))"

fun legacyPathsLoop ::
  "Service \<Rightarrow> Resource \<Rightarrow> Ingress \<Rightarrow> IngressRule \<Rightarrow> HTTPIngressPath list \<Rightarrow> Processor
     \<Rightarrow> error + Processor" where
  "legacyPathsLoop svc svcResource ing rule [] p = Inr p"
| "legacyPathsLoop svc svcResource ing rule (path # rest) p =
     (case bk_Service (Backend path) of
        None \<Rightarrow> Inl NilPointerDereference
      | Some backend \<Rightarrow>
          if isb_Name backend = svc_Name svc
          then legacyPathsLoop svc svcResource ing rule rest
                 (p\<lparr>relations := relations p @
                      [\<lparr>Source = legacyResource ResourceTypeIngress (ing_Name ing)
                                  (ing_Namespace ing) (ing_Labels ing) (IngressObj ing),
                        Target = svcResource,
                        RelType = RelationshipTypeExposes,
                        Description = ''exposes via '' @ Host rule @ Path path\<rparr>]\<rparr>)
          else legacyPathsLoop svc svcResource ing rule rest p)"

fun legacyRulesLoop ::
  "Service \<Rightarrow> Resource \<Rightarrow> Ingress \<Rightarrow> IngressRule list \<Rightarrow> Processor \<Rightarrow> error + Processor" where
  "legacyRulesLoop svc svcResource ing [] p = Inr p"
| "legacyRulesLoop svc svcResource ing (rule # rest) p =
     (case HTTP rule of
        None \<Rightarrow> legacyRulesLoop svc svcResource ing rest p
      | Some paths \<Rightarrow>
          (case legacyPathsLoop svc svcResource ing rule paths p of
             Inl e \<Rightarrow> Inl e
           | Inr p' \<Rightarrow> legacyRulesLoop svc svcResource ing rest p'))"

fun legacyIngressesLoop ::
  "Service \<Rightarrow> Resource \<Rightarrow> Ingress list \<Rightarrow> Processor \<Rightarrow> error + Processor" where
  "legacyIngressesLoop svc svcResource [] p = Inr p"
| "legacyIngressesLoop svc svcResource (ing # rest) p =
     (case legacyRulesLoop svc svcResource ing (Rules ing) p of
        Inl e \<Rightarrow> Inl e
      | Inr p' \<Rightarrow> legacyIngressesLoop svc svcResource rest p')"

text \<open>The part of the loop body that finds the ingresses of one service.\<close>

definition legacyIngressPart ::
  "Cluster \<Rightarrow> string \<Rightarrow> Service \<Rightarrow> Resource \<Rightarrow> Processor \<Rightarrow> error + Processor" where
  "legacyIngressPart c namespace svc svcResource p =
     (let p1 = request (ListIngresses namespace) p
      in case IngressesList c namespace of
           Inl err \<Rightarrow> Inr p1
         | Inr ingresses \<Rightarrow> legacyIngressesLoop svc svcResource ingresses p1)"

text \<open>The body of the loop over the services.\<close>

definition legacyServiceBody ::
  "Cluster \<Rightarrow> string \<Rightarrow> Service \<Rightarrow> Processor \<Rightarrow> error + Processor" where
  "legacyServiceBody c namespace svc p =
     (let svcResource = legacyResource ResourceTypeService (svc_Name svc) (svc_Namespace svc)
                          (svc_Labels svc) (ServiceObj svc);
          p1 = p\<lparr>resources := resources p @ [svcResource]\<rparr>
      in case Selector svc of
           None \<Rightarrow> legacyIngressPart c namespace svc svcResource p1
         | Some sel \<Rightarrow>
             (let selector = FormatLabelSelector sel;
                  p2 = request (ListPods namespace selector) p1
              in case PodsList c namespace selector of
                   Inl err \<Rightarrow> Inr p2
                 | Inr pods \<Rightarrow>
                     (case legacyPodsLoop svc svcResource pods p2 of
                        Inl e \<Rightarrow> Inl e
                      | Inr p3 \<Rightarrow> legacyIngressPart c namespace svc svcResource p3)))"

fun legacyServicesLoop ::
  "Cluster \<Rightarrow> string \<Rightarrow> Service list \<Rightarrow> Processor \<Rightarrow> error + Processor" where
  "legacyServicesLoop c namespace [] p = Inr p"
| "legacyServicesLoop c namespace (svc # rest) p =
     (case legacyServiceBody c namespace svc p of
        Inl e \<Rightarrow> Inl e
      | Inr p' \<Rightarrow> legacyServicesLoop c namespace rest p')"

definition legacyServiceProcess :: "Cluster \<Rightarrow> string \<Rightarrow> Processor \<Rightarrow> error + Processor" where
  "legacyServiceProcess c namespace p =
     (let p1 = request (ListServices namespace) p
      in case ServicesList c namespace of
           Inl err \<Rightarrow> Inl (Errorf ''failed to list services'' err)
         | Inr services \<Rightarrow> legacyServicesLoop c namespace services p1)"




text \<open>The Targets edge \<open>processPods\<close> builds for one pod.\<close>

definition targetsEdge :: "Service \<Rightarrow> Resource \<Rightarrow> Pod \<Rightarrow> Relationship" where
  "targetsEdge svc svcResource pod =
     \<lparr>Source = svcResource, Target = podResource pod, RelType = RelationshipTypeTargets,
      Description = ''routes traffic to pod: '' @ formatPorts (Ports svc)\<rparr>"

section \<open>package mapper: IngressProcessor\<close>

text \<open>The resource and the edge \<open>processTLSSecrets\<close> builds for a TLS entry whose secret was
  found.\<close>

definition secretResource :: "IngressTLS \<Rightarrow> Secret \<Rightarrow> Resource" where
  "secretResource tls secret =
     \<lparr>Type = ResourceTypeSecret, Name = sec_Name secret, Namespace = sec_Namespace secret,
      Labels = sec_Labels secret, Data = Pointer (SecretObj secret),
      Status = \<lparr>Phase = ''Active'', Ready = True,
                Details = ''TLS secret for hosts: '' @ Join (Hosts tls) '', ''\<rparr>\<rparr>"

definition secretEdge :: "Resource \<Rightarrow> IngressTLS \<Rightarrow> Secret \<Rightarrow> Relationship" where
  "secretEdge ingResource tls secret =
     \<lparr>Source = ingResource, Target = secretResource tls secret, RelType = RelationshipTypeUses,
      Description = ''uses for TLS: '' @ Join (Hosts tls) '', ''\<rparr>"

fun processTLSLoop ::
  "Cluster \<Rightarrow> Ingress \<Rightarrow> Resource \<Rightarrow> IngressTLS list \<Rightarrow> Processor \<Rightarrow> Processor" where
  "processTLSLoop c ing ingResource [] p = p"
| "processTLSLoop c ing ingResource (tls # rest) p =
     (if SecretName tls = []
      then processTLSLoop c ing ingResource rest p
      else (case SecretsGet c (ing_Namespace ing) (SecretName tls) of
              Inl err \<Rightarrow>
                processTLSLoop c ing ingResource rest
                  (request (GetSecret (ing_Namespace ing) (SecretName tls)) p)
            | Inr secret \<Rightarrow>
                processTLSLoop c ing ingResource rest
                  (addRelationship (secretEdge ingResource tls secret)
                     (addResource (secretResource tls secret)
                        (request (GetSecret (ing_Namespace ing) (SecretName tls)) p)))))"

text \<open>\<open>processTLSSecrets\<close> has a single \<open>return nil\<close>, after the loop.\<close>

definition processTLSSecrets ::
  "Cluster \<Rightarrow> Ingress \<Rightarrow> Resource \<Rightarrow> Processor \<Rightarrow> error option \<times> Processor" where
  "processTLSSecrets c ing ingResource p = (None, processTLSLoop c ing ingResource (TLS ing) p)"







text \<open>The secret a TLS entry leads to: none for an empty name and none when the lookup fails.\<close>

definition foundSecret :: "Cluster \<Rightarrow> Ingress \<Rightarrow> IngressTLS \<Rightarrow> Secret option" where
  "foundSecret c ing tls =
     (if SecretName tls = [] then None
      else (case SecretsGet c (ing_Namespace ing) (SecretName tls) of
              Inl err \<Rightarrow> None
            | Inr secret \<Rightarrow> Some secret))"







section \<open>package mapper: ConfigMapProcessor\<close>

text \<open>The usage modes found are the keys of a \<open>map[string]bool\<close>; \<open>usageTypes[k] = true\<close> is an
  update of the association list.\<close>

fun usageVolumesLoop :: "string \<Rightarrow> Volume list \<Rightarrow> (string \<times> bool) list \<Rightarrow> (string \<times> bool) list" where
  "usageVolumesLoop configMapName [] usageTypes = usageTypes"
| "usageVolumesLoop configMapName (volume # rest) usageTypes =
     usageVolumesLoop configMapName rest
       (if vol_ConfigMap volume = Some configMapName
        then AList.update ''volume'' True usageTypes else usageTypes)"

fun usageEnvFromLoop ::
  "string \<Rightarrow> EnvFromSource list \<Rightarrow> (string \<times> bool) list \<Rightarrow> (string \<times> bool) list" where
  "usageEnvFromLoop configMapName [] usageTypes = usageTypes"
| "usageEnvFromLoop configMapName (envFrom # rest) usageTypes =
     usageEnvFromLoop configMapName rest
       (if ConfigMapRef envFrom = Some configMapName
        then AList.update ''environment'' True usageTypes else usageTypes)"

fun usageEnvLoop :: "string \<Rightarrow> EnvVar list \<Rightarrow> (string \<times> bool) list \<Rightarrow> (string \<times> bool) list" where
  "usageEnvLoop configMapName [] usageTypes = usageTypes"
| "usageEnvLoop configMapName (env # rest) usageTypes =
     usageEnvLoop configMapName rest
       (case ValueFrom env of
          None \<Rightarrow> usageTypes
        | Some src \<Rightarrow>
            if ConfigMapKeyRef src = Some configMapName
            then AList.update ''environment variable'' True usageTypes else usageTypes)"

fun usageContainersLoop ::
  "string \<Rightarrow> Container list \<Rightarrow> (string \<times> bool) list \<Rightarrow> (string \<times> bool) list" where
  "usageContainersLoop configMapName [] usageTypes = usageTypes"
| "usageContainersLoop configMapName (container # rest) usageTypes =
     usageContainersLoop configMapName rest
       (usageEnvLoop configMapName (Env container)
          (usageEnvFromLoop configMapName (EnvFrom container) usageTypes))"

definition usageTypesOf :: "PodSpec \<Rightarrow> string \<Rightarrow> (string \<times> bool) list" where
  "usageTypesOf spec configMapName =
     usageContainersLoop configMapName (Containers spec)
       (usageVolumesLoop configMapName (Volumes spec) [])"







subsection \<open>The earlier ConfigMapProcessor\<close>

text \<open>Its \<open>findConfigMapUsageInPodTemplate\<close> runs the same three checks, then joins the keys in
  the order the map iteration delivers them, without sorting. The iteration order is the
  argument \<open>iterate\<close>, applied to the keys.\<close>

definition legacyFindConfigMapUsageInPodTemplate ::
  "(string list \<Rightarrow> string list) \<Rightarrow> PodSpec \<Rightarrow> string \<Rightarrow> bool \<times> string" where
  "legacyFindConfigMapUsageInPodTemplate iterate template configMapName =
     (let usageTypes = usageTypesOf template configMapName
      in if length usageTypes = 0 then (False, [])
         else (True, Join (iterate (map fst usageTypes)) '', ''))"






section \<open>package mapper: ResourceMapper\<close>

record VisualOptions =
  ShowColors :: bool
  ShowDetails :: bool

record Config =
  cfg_Namespace :: string
  ExcludeNs :: "string list"
  cfg_VisualOptions :: "VisualOptions option"

text \<open>The mapper: its resource mapping, what it has written to standard output, and the
  warnings handed to \<open>utils.PrintWarning\<close>. The body of \<open>PrintWarning\<close> is not part of the
  sources; a warning is kept as the namespace and the error of the message
  \<open>Error processing namespace <ns>: <err>\<close>.\<close>

record Mapper =
  rm_resources :: ResourceMapping
  stdout :: string
  warnings :: "(string \<times> error) list"

definition NewResourceMapper :: Mapper where
  "NewResourceMapper =
     \<lparr>rm_resources = \<lparr>Resources = [], Relationships = []\<rparr>, stdout = [], warnings = []\<rparr>"

definition addRelationships :: "Relationship list \<Rightarrow> ResourceMapping \<Rightarrow> ResourceMapping" where
  "addRelationships relationships m = m\<lparr>Relationships := Relationships m @ relationships\<rparr>"

definition getNamespaces :: "Config \<Rightarrow> Cluster \<Rightarrow> error + string list" where
  "getNamespaces cfg c =
     (if cfg_Namespace cfg \<noteq> []
      then (case NamespacesGet c (cfg_Namespace cfg) of
              Inl err \<Rightarrow> Inl (Errorf (''namespace '' @ cfg_Namespace cfg @ '' not found'') err)
            | Inr ns \<Rightarrow> Inr [cfg_Namespace cfg])
      else (case NamespacesList c of
              Inl err \<Rightarrow> Inl err
            | Inr nsList \<Rightarrow> Inr (filter (\<lambda>ns. ns \<notin> set (ExcludeNs cfg)) nsList)))"

text \<open>What a kind processor does when \<open>processNamespace\<close> runs it: \<open>Process\<close> returns (an error
  or nil) and \<open>GetRelationships\<close> then yields its edges, or \<open>Process\<close> panics.\<close>

datatype KindOutcome = Returned "error option" "Relationship list" | Panicked error

text \<open>The goroutines of \<open>processNamespace\<close>, one per processor. A goroutine whose \<open>Process\<close> fails
  sends the error to the channel and returns; otherwise it appends the processor's
  relationships under the mapper's lock. The list is the processors in the order in which
  these effects happen, which can be any order.\<close>

fun runProcessors ::
  "KindOutcome list \<Rightarrow> error list \<times> ResourceMapping \<Rightarrow> error + (error list \<times> ResourceMapping)" where
  "runProcessors [] st = Inr st"
| "runProcessors (Panicked e # rest) st = Inl e"
| "runProcessors (Returned (Some err) relationships # rest) (errCh, m) =
     runProcessors rest (errCh @ [err], m)"
| "runProcessors (Returned None relationships # rest) (errCh, m) =
     runProcessors rest (errCh, addRelationships relationships m)"

definition PrintLine :: string where
  "PrintLine = replicate 80 CHR ''-'' @ NL"

definition FormatResource :: "string \<Rightarrow> string \<Rightarrow> string" where
  "FormatResource resourceType name =
     Colorize (GetResourceColor resourceType) (resourceType @ '': '' @ name)"

text \<open>\<open>processNamespace\<close>; the first argument gives the four processors created for a namespace
  by what they do. \<open>Inl\<close> is a panic, otherwise the result is the returned error and the
  mapper.\<close>

definition processNamespace ::
  "(string \<Rightarrow> KindOutcome list) \<Rightarrow> string \<Rightarrow> Mapper \<Rightarrow> error + (error option \<times> Mapper)" where
  "processNamespace processors namespace rm =
     (let rm1 = rm\<lparr>stdout := stdout rm @ PrintLine @ FormatResource ''Namespace'' namespace @ NL
                                @ PrintLine\<rparr>
      in case runProcessors (processors namespace) ([], rm_resources rm1) of
           Inl e \<Rightarrow> Inl e
         | Inr (errCh, m) \<Rightarrow>
             (case errCh of
                [] \<Rightarrow> Inr (None, rm1\<lparr>rm_resources := m\<rparr>)
              | err # _ \<Rightarrow> Inr (Some (Errorf ''processor error'' err), rm1\<lparr>rm_resources := m\<rparr>)))"

fun namespacesLoop ::
  "(string \<Rightarrow> KindOutcome list) \<Rightarrow> string list \<Rightarrow> Mapper \<Rightarrow> error + Mapper" where
  "namespacesLoop processors [] rm = Inr rm"
| "namespacesLoop processors (ns # rest) rm =
     (case processNamespace processors ns rm of
        Inl e \<Rightarrow> Inl e
      | Inr (Some err, rm') \<Rightarrow>
          namespacesLoop processors rest (rm'\<lparr>warnings := warnings rm' @ [(ns, err)]\<rparr>)
      | Inr (None, rm') \<Rightarrow> namespacesLoop processors rest rm')"

definition Visualize :: "Config \<Rightarrow> Env \<Rightarrow> Mapper \<Rightarrow> error + (error option \<times> Mapper)" where
  "Visualize cfg env rm =
     (let viz = NewVisualizer (rm_resources rm);
          viz = (case cfg_VisualOptions cfg of
                   None \<Rightarrow> viz
                 | Some opts \<Rightarrow> viz\<lparr>showDetails := ShowDetails opts, colorOutput := ShowColors opts\<rparr>)
      in case RenderClusterView viz env of
           Inl e \<Rightarrow> Inl e
         | Inr output \<Rightarrow> Inr (None, rm\<lparr>stdout := stdout rm @ output @ NL\<rparr>))"

text \<open>\<open>ResourceMapper.Process\<close>, on the mapper \<open>NewResourceMapper\<close> returns.\<close>

definition Process ::
  "Config \<Rightarrow> Cluster \<Rightarrow> Env \<Rightarrow> (string \<Rightarrow> KindOutcome list) \<Rightarrow> error + (error option \<times> Mapper)" where
  "Process cfg c env processors =
     (case getNamespaces cfg c of
        Inl err \<Rightarrow> Inr (Some (Errorf ''failed to get namespaces'' err), NewResourceMapper)
      | Inr namespaces \<Rightarrow>
          (case namespacesLoop processors namespaces NewResourceMapper of
             Inl e \<Rightarrow> Inl e
           | Inr rm \<Rightarrow>
               (case Visualize cfg env rm of
                  Inl e \<Rightarrow> Inl e
                | Inr (Some err, rm') \<Rightarrow> Inr (Some (Errorf ''visualization error'' err), rm')
                | Inr (None, rm') \<Rightarrow> Inr (None, rm'))))"

text \<open>How the result of the earlier, sequential \<open>Process\<close> of a processor reads as an outcome:
  an error built by \<open>fmt.Errorf\<close> or received from the client is returned, the two run-time
  faults are panics.\<close>

fun outcomeOf :: "error + Processor \<Rightarrow> KindOutcome" where
  "outcomeOf (Inr p) = Returned None (relations p)"
| "outcomeOf (Inl NilPointerDereference) = Panicked NilPointerDereference"
| "outcomeOf (Inl IndexOutOfRange) = Panicked IndexOutOfRange"
| "outcomeOf (Inl e) = Returned (Some e) []"

text \<open>What an outcome adds to the mapping, the error it sends to the channel, and whether it is
  a return at all.\<close>

fun contribution :: "KindOutcome \<Rightarrow> Relationship list" where
  "contribution (Returned None relationships) = relationships"
| "contribution (Returned (Some err) relationships) = []"
| "contribution (Panicked e) = []"

fun returnedError :: "KindOutcome \<Rightarrow> error option" where
  "returnedError (Returned err relationships) = err"
| "returnedError (Panicked e) = None"

fun returns :: "KindOutcome \<Rightarrow> bool" where
  "returns (Returned err relationships) = True"
| "returns (Panicked e) = False"

text \<open>The warning of a namespace: the first error its processors sent, wrapped by
  \<open>processNamespace\<close>.\<close>

definition namespaceWarning :: "(string \<Rightarrow> KindOutcome list) \<Rightarrow> string \<Rightarrow> (string \<times> error) option" where
  "namespaceWarning processors ns =
     (case List.map_filter returnedError (processors ns) of
        [] \<Rightarrow> None
      | err # _ \<Rightarrow> Some (ns, Errorf ''processor error'' err))"

section \<open>Example objects\<close>

definition exPod :: "string \<Rightarrow> string \<Rightarrow> labels \<Rightarrow> Pod" where
  "exPod ns n ls = \<lparr>pod_Name = n, pod_Namespace = ns, pod_Labels = ls,
     pod_Spec = \<lparr>Volumes = [], Containers = []\<rparr>, pod_Phase = ''Running'',
     pod_Conditions = [(''Ready'', ''True'')]\<rparr>"

definition exResource :: "ResourceType \<Rightarrow> string \<Rightarrow> string \<Rightarrow> Resource" where
  "exResource ty ns n =
     \<lparr>Type = ty, Name = n, Namespace = ns, Labels = [], Data = NoData, Status = zeroStatus\<rparr>"

definition exEdge :: "Resource \<Rightarrow> Resource \<Rightarrow> RelationshipType \<Rightarrow> string \<Rightarrow> Relationship" where
  "exEdge s t k d = \<lparr>Source = s, Target = t, RelType = k, Description = d\<rparr>"


text \<open>The same Pod as two processors report it: once bare, once with labels and payload.\<close>

definition exPodBare :: Resource where
  "exPodBare = exResource ''Pod'' ''default'' ''web-1''"

definition exPodFull :: Resource where
  "exPodFull = (exResource ''Pod'' ''default'' ''web-1'')
     \<lparr>Labels := [(''app'', ''web'')],
      Data := Value (PodObj (exPod ''default'' ''web-1'' [(''app'', ''web'')]))\<rparr>"

text \<open>A Deployment with two of two replicas ready, one scaled down to zero while a replica is
  still ready, and one that is starting.\<close>

definition exDeployment :: "string \<Rightarrow> int option \<Rightarrow> int \<Rightarrow> PodSpec \<Rightarrow> Deployment" where
  "exDeployment n desired ready spec =
     \<lparr>dep_Name = n, dep_Namespace = ''default'', dep_Labels = [(''app'', n)],
      Replicas = desired, Template = spec, ReadyReplicas = ready\<rparr>"

definition exNoConfig :: PodSpec where
  "exNoConfig = \<lparr>Volumes = [], Containers = [\<lparr>EnvFrom = [], Env = []\<rparr>]\<rparr>"

definition exWeb :: Deployment where
  "exWeb = exDeployment ''web'' (Some 2) 2 exNoConfig"

definition exScaledDown :: Deployment where
  "exScaledDown = exDeployment ''batch'' (Some 0) 1 exNoConfig"

definition exEmptyView :: Visualizer where
  "exEmptyView = NewVisualizer \<lparr>Resources = [], Relationships = []\<rparr>"

text \<open>Service ports: a numeric target port and a target port given by name.\<close>

definition exPortHttp :: ServicePort where
  "exPortHttp = \<lparr>Port = 80, TargetPort = \<lparr>ios_Type = intstr_Int, IntVal = 8080, StrVal = []\<rparr>,
                 Protocol = ''TCP''\<rparr>"

definition exPortNamed :: ServicePort where
  "exPortNamed = \<lparr>Port = 443, TargetPort = \<lparr>ios_Type = intstr_String, IntVal = 0, StrVal = ''https''\<rparr>,
                  Protocol = ''TCP''\<rparr>"

text \<open>An Ingress with three TLS entries: one without secret name, one naming a secret that
  does not exist, one naming an existing secret.\<close>

definition exTlsIngress :: Ingress where
  "exTlsIngress =
     \<lparr>ing_Name = ''web-ing'', ing_Namespace = ''default'', ing_Labels = [],
      TLS = [\<lparr>Hosts = [''a.example.com''], SecretName = []\<rparr>,
             \<lparr>Hosts = [''b.example.com''], SecretName = ''gone''\<rparr>,
             \<lparr>Hosts = [''c.example.com'', ''d.example.com''], SecretName = ''web-tls''\<rparr>],
      Rules = [], DefaultBackend = None\<rparr>"

definition exTlsCluster :: Cluster where
  "exTlsCluster =
     \<lparr>cl_namespaces = [''default''], cl_pods = [], cl_services = [], cl_ingresses = [exTlsIngress],
      cl_deployments = [],
      cl_secrets = [\<lparr>sec_Name = ''web-tls'', sec_Namespace = ''default'', sec_Labels = []\<rparr>],
      cl_failures = []\<rparr>"

text \<open>An Ingress with two path rules, \<open>/a\<close> and \<open>/b\<close>, both pointing at the Service \<open>web-svc\<close>,
  in a cluster that holds the Service.\<close>

definition exPath :: "string \<Rightarrow> string \<Rightarrow> HTTPIngressPath" where
  "exPath path svc =
     \<lparr>Path = path, Backend = \<lparr>bk_Service = Some \<lparr>isb_Name = svc, isb_PortNumber = 80\<rparr>\<rparr>\<rparr>"

definition exTwoPaths :: Ingress where
  "exTwoPaths =
     \<lparr>ing_Name = ''web-ing'', ing_Namespace = ''default'', ing_Labels = [], TLS = [],
      Rules = [\<lparr>Host = ''app.example.com'',
                HTTP = Some [exPath ''/a'' ''web-svc'', exPath ''/b'' ''web-svc'']\<rparr>],
      DefaultBackend = None\<rparr>"

definition exWebSvc :: Service where
  "exWebSvc =
     \<lparr>svc_Name = ''web-svc'', svc_Namespace = ''default'', svc_Labels = [],
      svc_Type = ''ClusterIP'', Selector = Some [(''app'', ''web'')], Ports = [exPortHttp]\<rparr>"

definition exCluster :: Cluster where
  "exCluster =
     \<lparr>cl_namespaces = [''default''],
      cl_pods = [exPod ''default'' ''web-1'' [(''app'', ''web''), (''tier'', ''front'')],
                 exPod ''default'' ''db-1'' [(''app'', ''db'')],
                 exPod ''other'' ''web-9'' [(''app'', ''web'')]],
      cl_services = [exWebSvc], cl_ingresses = [exTwoPaths], cl_deployments = [],
      cl_secrets = [], cl_failures = []\<rparr>"

text \<open>A headless Service without ports that selects the pod \<open>web-1\<close>.\<close>

definition exHeadless :: Service where
  "exHeadless =
     \<lparr>svc_Name = ''web-headless'', svc_Namespace = ''default'', svc_Labels = [],
      svc_Type = ''ClusterIP'', Selector = Some [(''app'', ''web'')], Ports = []\<rparr>"

text \<open>A Deployment whose pod template uses the ConfigMap \<open>app-config\<close> as an environment
  variable in the first container, through \<open>envFrom\<close> in the second, and as a volume.\<close>

definition exThreeWays :: PodSpec where
  "exThreeWays =
     \<lparr>Volumes = [\<lparr>vol_Name = ''cfg'', vol_ConfigMap = Some ''app-config''\<rparr>],
      Containers =
        [\<lparr>EnvFrom = [],
          Env = [\<lparr>env_Name = ''MODE'',
                  ValueFrom = Some \<lparr>ConfigMapKeyRef = Some ''app-config''\<rparr>\<rparr>]\<rparr>,
         \<lparr>EnvFrom = [\<lparr>ConfigMapRef = Some ''app-config''\<rparr>], Env = []\<rparr>]\<rparr>"



text \<open>Two namespaces. In \<open>restricted\<close> the Deployments cannot be listed, while another processor
  of that namespace reports one edge; in \<open>default\<close> the earlier ServiceProcessor runs against
  the example cluster.\<close>

definition exNamespaces :: Cluster where
  "exNamespaces = exCluster\<lparr>cl_namespaces := [''restricted'', ''default'']\<rparr>"

definition exRestrictedEdge :: Relationship where
  "exRestrictedEdge =
     exEdge (exResource ''Service'' ''restricted'' ''db'') (exResource ''Pod'' ''restricted'' ''db-0'')
       ''targets'' ''exposes port 5432''"

definition exProcessors :: "string \<Rightarrow> KindOutcome list" where
  "exProcessors ns =
     (if ns = ''restricted''
      then [Returned (Some (Errorf ''failed to list deployments'' (ApiError PermissionDenied))) [],
            Returned None [exRestrictedEdge]]
      else [outcomeOf (legacyServiceProcess exNamespaces ns NewProcessor)])"

definition exConfig :: Config where
  "exConfig = \<lparr>cfg_Namespace = [], ExcludeNs = [''kube-system''], cfg_VisualOptions = None\<rparr>"

definition exEnv :: Env where
  "exEnv = \<lparr>DisableColors = True, CurrentTime = ''2024-01-01 10:00:00''\<rparr>"


section \<open>Verified properties\<close>

subsection \<open>Relationship lookup in the renderer\<close>



subsection \<open>Resource identity and the resource set\<close>


































text \<open>At the grain of the lock the check and the insertion of a task are two steps. When each
  task checks and inserts without another task in between, the result lists the Pod once.
  When both tasks check before either inserts, both find the key missing: the set ends
  with one entry, the one added last, while \<open>result.Resources\<close> lists the Pod twice.\<close>

lemma ProcessResources_interleaving_example:
  "interleave [0, 0, 1, 1]
     ([\<lparr>todo = [exPodBare], answer = None\<rparr>, \<lparr>todo = [exPodFull], answer = None\<rparr>],
      NewResourceSet, [])
     = ([\<lparr>todo = [], answer = None\<rparr>, \<lparr>todo = [], answer = None\<rparr>],
        \<lparr>data = [(''Pod/default/web-1'', exPodBare)]\<rparr>, [exPodBare])"
  "interleave [0, 1, 0, 1]
     ([\<lparr>todo = [exPodBare], answer = None\<rparr>, \<lparr>todo = [exPodFull], answer = None\<rparr>],
      NewResourceSet, [])
     = ([\<lparr>todo = [], answer = None\<rparr>, \<lparr>todo = [], answer = None\<rparr>],
        \<lparr>data = [(''Pod/default/web-1'', exPodFull)]\<rparr>, [exPodBare, exPodFull])"
  by (simp_all add: taskStep_def Contains_def Add_def NewResourceSet_def ResourceKey_def
        exPodBare_def exPodFull_def exResource_def)

subsection \<open>Replica status of a Deployment\<close>

text \<open>As claim C7 states it, a Deployment with no desired replicas is fully ready. A
  Deployment scaled to zero with one replica still ready is classified as partially ready, by
  the processor and by the renderer.\<close>

theorem replica_status_desired_zero_counterexample:
  "Replicas exScaledDown = Some 0
   \<and> getDeploymentStatus exScaledDown
       = Inr \<lparr>Phase = ''PartiallyReady'', Ready = False, Details = ''1/0 replicas ready''\<rparr>
   \<and> getDeploymentStatusSymbol exEmptyView (ReadyReplicas exScaledDown) 0
       = Colorize ColorYellow warningSymbol"
  by (simp add: exScaledDown_def exDeployment_def getDeploymentStatus_def showInt_def
        showNat.simps getDeploymentStatusSymbol_def colorize_def exEmptyView_def NewVisualizer_def)

lemma colorize_symbols_distinct:
  "colorize v ColorGreen successSymbol \<noteq> colorize v ColorYellow warningSymbol"
  "colorize v ColorGreen successSymbol \<noteq> colorize v ColorRed errorSymbol"
  "colorize v ColorYellow warningSymbol \<noteq> colorize v ColorRed errorSymbol"
  by (simp_all add: colorize_def Colorize_def Color_defs Symbol_defs)

text \<open>Claim C7, amended. For a Deployment with \<open>ready\<close> ready and \<open>desired\<close> desired replicas, the
  status details are \<open><ready>/<desired> replicas ready\<close>, and the renderer's detail line shows
  the same text after the status symbol. The Deployment is fully ready exactly when
  \<open>ready = desired\<close>, partially ready exactly when \<open>ready \<noteq> desired\<close> and \<open>ready > 0\<close>, and not
  ready exactly when \<open>ready \<noteq> desired\<close> and \<open>ready \<le> 0\<close>; the renderer's symbol follows the same
  three cases.\<close>

theorem replica_status_classification:
  assumes "Replicas d = Some desired"
  shows "\<exists>st. getDeploymentStatus d = Inr st
       \<and> Details st = showInt (ReadyReplicas d) @ ''/'' @ showInt desired @ '' replicas ready''
       \<and> (Phase st = ''Ready'' \<longleftrightarrow> ReadyReplicas d = desired)
       \<and> (Ready st \<longleftrightarrow> ReadyReplicas d = desired)
       \<and> (Phase st = ''PartiallyReady'' \<longleftrightarrow> ReadyReplicas d \<noteq> desired \<and> ReadyReplicas d > 0)
       \<and> (Phase st = ''NotReady'' \<longleftrightarrow> ReadyReplicas d \<noteq> desired \<and> ReadyReplicas d \<le> 0)
       \<and> (getDeploymentStatusSymbol v (ReadyReplicas d) desired = colorize v ColorGreen successSymbol
            \<longleftrightarrow> ReadyReplicas d = desired)
       \<and> (getDeploymentStatusSymbol v (ReadyReplicas d) desired = colorize v ColorYellow warningSymbol
            \<longleftrightarrow> ReadyReplicas d \<noteq> desired \<and> ReadyReplicas d > 0)
       \<and> (getDeploymentStatusSymbol v (ReadyReplicas d) desired = colorize v ColorRed errorSymbol
            \<longleftrightarrow> ReadyReplicas d \<noteq> desired \<and> ReadyReplicas d \<le> 0)
       \<and> (showDetails v \<and> Data r = Value (DeploymentObj d) \<longrightarrow>
            deploymentDetails v isLast r
              = Inr (getIndent isLast @ ''  ''
                     @ getDeploymentStatusSymbol v (ReadyReplicas d) desired @ '' ''
                     @ Details st @ NL))"
  using assms colorize_symbols_distinct[of v]
  by (auto simp: getDeploymentStatus_def getDeploymentStatusSymbol_def deploymentDetails_def Let_def)

theorem replica_status_classification_witness:
  "Replicas exWeb = Some 2
   \<and> getDeploymentStatus exWeb
       = Inr \<lparr>Phase = ''Ready'', Ready = True, Details = ''2/2 replicas ready''\<rparr>"
  using replica_status_classification [of exWeb 2 exEmptyView]
  by (auto simp: exWeb_def exDeployment_def showInt_def showNat.simps getDeploymentStatus_def)

subsection \<open>Port formatting\<close>




text \<open>An example with a numeric target port and one given by name: the integer value of a
  named target port is zero, and zero is what the entry shows.\<close>

lemma formatPorts_example:
  "formatPorts [exPortHttp, exPortNamed]
     = ''80'' @ rightArrow @ ''8080/TCP, 443'' @ rightArrow @ ''0/TCP''"
  by (simp add: formatPorts_def exPortHttp_def exPortNamed_def showInt_def showNat.simps)

subsection \<open>TLS secrets of an Ingress\<close>

lemma processTLSLoop_effect:
  "processTLSLoop c ing ingResource ts p =
     p\<lparr>resources := resources p
          @ List.map_filter (\<lambda>tls. map_option (secretResource tls) (foundSecret c ing tls)) ts,
       relations := relations p
          @ List.map_filter (\<lambda>tls. map_option (secretEdge ingResource tls) (foundSecret c ing tls)) ts,
       calls := calls p
          @ map (\<lambda>tls. GetSecret (ing_Namespace ing) (SecretName tls))
              (filter (\<lambda>tls. SecretName tls \<noteq> []) ts)\<rparr>"
proof (induction ts arbitrary: p)
  case Nil
  then show ?case by (simp add: map_filter_simps)
next
  case (Cons tls ts)
  show ?case
  proof (cases "SecretName tls = []")
    case True
    then show ?thesis
      by (simp add: Cons.IH foundSecret_def map_filter_simps)
  next
    case False
    then show ?thesis
      by (cases "SecretsGet c (ing_Namespace ing) (SecretName tls)")
         (simp_all add: Cons.IH foundSecret_def map_filter_simps request_def addResource_def
            addRelationship_def)
  qed
qed

text \<open>Claim C9. \<open>processTLSSecrets\<close> never returns an error. It sends one Get request per TLS
  entry with a non-empty secret name, in order, and none for an entry whose secret name is
  empty. It adds a Secret resource and a Uses edge exactly for the entries whose secret was
  found: an entry with an empty name and an entry whose lookup fails add nothing.\<close>

theorem tls_entries_skipped:
  "fst (processTLSSecrets c ing ingResource p) = None
   \<and> calls (snd (processTLSSecrets c ing ingResource p))
       = calls p @ map (\<lambda>tls. GetSecret (ing_Namespace ing) (SecretName tls))
                     (filter (\<lambda>tls. SecretName tls \<noteq> []) (TLS ing))
   \<and> resources (snd (processTLSSecrets c ing ingResource p))
       = resources p
         @ List.map_filter (\<lambda>tls. map_option (secretResource tls) (foundSecret c ing tls)) (TLS ing)
   \<and> relations (snd (processTLSSecrets c ing ingResource p))
       = relations p
         @ List.map_filter (\<lambda>tls. map_option (secretEdge ingResource tls) (foundSecret c ing tls))
             (TLS ing)"
  by (simp add: processTLSSecrets_def processTLSLoop_effect)

text \<open>Three TLS entries (no name, a missing secret, an existing secret): two requests, one
  resource, one edge, no error.\<close>

lemma processTLSSecrets_example:
  "processTLSSecrets exTlsCluster exTlsIngress (exResource ''Ingress'' ''default'' ''web-ing'')
     NewProcessor
   = (None,
      \<lparr>resources =
         [\<lparr>Type = ''Secret'', Name = ''web-tls'', Namespace = ''default'', Labels = [],
           Data = Pointer (SecretObj \<lparr>sec_Name = ''web-tls'', sec_Namespace = ''default'',
                                      sec_Labels = []\<rparr>),
           Status = \<lparr>Phase = ''Active'', Ready = True,
                     Details = ''TLS secret for hosts: c.example.com, d.example.com''\<rparr>\<rparr>],
       relations =
         [\<lparr>Source = exResource ''Ingress'' ''default'' ''web-ing'',
           Target = \<lparr>Type = ''Secret'', Name = ''web-tls'', Namespace = ''default'', Labels = [],
             Data = Pointer (SecretObj \<lparr>sec_Name = ''web-tls'', sec_Namespace = ''default'',
                                        sec_Labels = []\<rparr>),
             Status = \<lparr>Phase = ''Active'', Ready = True,
                       Details = ''TLS secret for hosts: c.example.com, d.example.com''\<rparr>\<rparr>,
           RelType = ''uses'', Description = ''uses for TLS: c.example.com, d.example.com''\<rparr>],
       calls = [GetSecret ''default'' ''gone'', GetSecret ''default'' ''web-tls'']\<rparr>)"
  by (simp add: processTLSSecrets_def exTlsCluster_def exTlsIngress_def NewProcessor_def
        SecretsGet_def callFails_def request_def addResource_def addRelationship_def
        secretResource_def secretEdge_def ResourceType_defs RelationshipType_defs)

subsection \<open>Exposes edges of an Ingress\<close>















subsection \<open>Targets edges of a Service\<close>

lemma processPodsLoop_effect:
  "processPodsLoop svc svcResource pods p =
     p\<lparr>resources := resources p @ map podResource pods,
       relations := relations p @ map (targetsEdge svc svcResource) pods\<rparr>"
  by (induction pods arbitrary: p) (simp_all add: addResource_def addRelationship_def targetsEdge_def)

lemma labelsMatch_map_le:
  "labelsMatch selector podLabels \<longleftrightarrow> map_of selector \<subseteq>\<^sub>m map_of podLabels"
  by (auto simp: labelsMatch_def map_le_def list_all_iff dom_map_of_conv_image_fst)

lemma podResource_inj: "podResource a = podResource b \<Longrightarrow> a = b"
  by (simp add: podResource_def)

lemma processPods_relations:
  assumes "callFails c ''pods'' (svc_Namespace svc) = None"
  shows "relations (snd (processPods c svc svcResource p)) =
     relations p @ map (targetsEdge svc svcResource)
       (case Selector svc of
          None \<Rightarrow> []
        | Some sel \<Rightarrow>
            if sel = [] then []
            else filter (\<lambda>pod. pod_Namespace pod = svc_Namespace svc
                            \<and> map_of sel \<subseteq>\<^sub>m map_of (pod_Labels pod)) (cl_pods c))"
  using assms
  by (auto simp: processPods_def PodsList_def FormatLabelSelector_def Let_def request_def
        processPodsLoop_effect labelsMatch_map_le split: option.splits)

text \<open>Claim C3. When the pods of the Service's namespace can be listed, \<open>processPods\<close> on a
  fresh processor yields a Targets edge from the Service to a Pod exactly when the Pod is in
  the cluster, in the namespace of the Service, and the selector of the Service is a
  non-empty map all of whose pairs are among the labels of the Pod. A Service whose selector
  is nil or empty adds no edge, and every edge added is a Targets edge from the Service.\<close>

theorem service_targets_matching_pods:
  assumes "callFails c ''pods'' (svc_Namespace svc) = None"
  shows "((\<exists>r \<in> set (relations (snd (processPods c svc svcResource NewProcessor))).
             Source r = svcResource \<and> Target r = podResource pod
             \<and> RelType r = RelationshipTypeTargets)
          \<longleftrightarrow> pod \<in> set (cl_pods c) \<and> pod_Namespace pod = svc_Namespace svc
              \<and> (\<exists>sel. Selector svc = Some sel \<and> sel \<noteq> []
                    \<and> map_of sel \<subseteq>\<^sub>m map_of (pod_Labels pod)))
       \<and> (Selector svc = None \<or> Selector svc = Some []
            \<longrightarrow> relations (snd (processPods c svc svcResource p)) = relations p)
       \<and> (\<forall>r \<in> set (relations (snd (processPods c svc svcResource NewProcessor))).
             Source r = svcResource \<and> RelType r = RelationshipTypeTargets)"
proof -
  note rel = processPods_relations[OF assms, of svcResource]
  show ?thesis
  proof (cases "Selector svc")
    case None
    with rel show ?thesis by (simp add: NewProcessor_def)
  next
    case (Some sel)
    show ?thesis
    proof (cases "sel = []")
      case True
      with Some rel show ?thesis by (simp add: NewProcessor_def)
    next
      case False
      let ?sel = "filter (\<lambda>pod. pod_Namespace pod = svc_Namespace svc
                            \<and> map_of sel \<subseteq>\<^sub>m map_of (pod_Labels pod)) (cl_pods c)"
      have r: "relations (snd (processPods c svc svcResource NewProcessor))
                 = map (targetsEdge svc svcResource) ?sel"
        using rel[of NewProcessor] Some False by (simp add: NewProcessor_def)
      have "(\<exists>r \<in> set (map (targetsEdge svc svcResource) ?sel).
               Source r = svcResource \<and> Target r = podResource pod
               \<and> RelType r = RelationshipTypeTargets) \<longleftrightarrow> pod \<in> set ?sel"
        by (auto simp: targetsEdge_def dest: podResource_inj)
      moreover have "\<forall>r \<in> set (map (targetsEdge svc svcResource) ?sel).
               Source r = svcResource \<and> RelType r = RelationshipTypeTargets"
        by (simp add: targetsEdge_def)
      moreover have "pod \<in> set ?sel \<longleftrightarrow> pod \<in> set (cl_pods c)
              \<and> pod_Namespace pod = svc_Namespace svc
              \<and> (\<exists>sel. Selector svc = Some sel \<and> sel \<noteq> []
                    \<and> map_of sel \<subseteq>\<^sub>m map_of (pod_Labels pod))"
        using Some False by auto
      moreover have "\<not> (Selector svc = None \<or> Selector svc = Some [])"
        using Some False by simp
      ultimately show ?thesis
        unfolding r by blast
    qed
  qed
qed

text \<open>The earlier ServiceProcessor describes the edge by the first port of the Service; on a
  Service without ports that selects a pod it panics instead of adding the edge.\<close>

lemma legacy_service_without_ports_example:
  "legacyServiceBody exCluster ''default'' exHeadless NewProcessor = Inl IndexOutOfRange"
  by (simp add: legacyServiceBody_def exHeadless_def exCluster_def PodsList_def callFails_def
        FormatLabelSelector_def labelsMatch_def exPod_def Let_def)

theorem service_targets_matching_pods_witness:
  "callFails exCluster ''pods'' (svc_Namespace exWebSvc) = None
   \<and> (\<exists>r \<in> set (relations (snd (processPods exCluster exWebSvc
                   (exResource ''Service'' ''default'' ''web-svc'') NewProcessor))).
         Source r = exResource ''Service'' ''default'' ''web-svc''
         \<and> Target r = podResource (exPod ''default'' ''web-1'' [(''app'', ''web''), (''tier'', ''front'')])
         \<and> RelType r = RelationshipTypeTargets)
   \<and> \<not> (\<exists>r \<in> set (relations (snd (processPods exCluster exWebSvc
                   (exResource ''Service'' ''default'' ''web-svc'') NewProcessor))).
         Source r = exResource ''Service'' ''default'' ''web-svc''
         \<and> Target r = podResource (exPod ''other'' ''web-9'' [(''app'', ''web'')])
         \<and> RelType r = RelationshipTypeTargets)"
proof -
  have h: "callFails exCluster ''pods'' (svc_Namespace exWebSvc) = None"
    by (simp add: callFails_def exCluster_def)
  note t = service_targets_matching_pods [OF h, THEN conjunct1]
  have a: "exPod ''default'' ''web-1'' [(''app'', ''web''), (''tier'', ''front'')]
             \<in> set (cl_pods exCluster)"
    by (simp add: exCluster_def)
  have m: "map_of [(''app'', ''web'')] \<subseteq>\<^sub>m map_of [(''app'', ''web''), (''tier'', ''front'')]"
    by (simp add: map_le_def)
  have s: "Selector exWebSvc = Some [(''app'', ''web'')]"
    by (simp add: exWebSvc_def)
  have n: "svc_Namespace exWebSvc = ''default''"
    by (simp add: exWebSvc_def)
  have pn: "\<And>ns nm ls. pod_Namespace (exPod ns nm ls) = ns"
    and pl: "\<And>ns nm ls. pod_Labels (exPod ns nm ls) = ls"
    by (simp_all add: exPod_def)
  have one: "\<exists>r \<in> set (relations (snd (processPods exCluster exWebSvc
                   (exResource ''Service'' ''default'' ''web-svc'') NewProcessor))).
         Source r = exResource ''Service'' ''default'' ''web-svc''
         \<and> Target r = podResource (exPod ''default'' ''web-1'' [(''app'', ''web''), (''tier'', ''front'')])
         \<and> RelType r = RelationshipTypeTargets"
    unfolding t pn pl n s using a m by blast
  have two: "\<not> (\<exists>r \<in> set (relations (snd (processPods exCluster exWebSvc
                   (exResource ''Service'' ''default'' ''web-svc'') NewProcessor))).
         Source r = exResource ''Service'' ''default'' ''web-svc''
         \<and> Target r = podResource (exPod ''other'' ''web-9'' [(''app'', ''web'')])
         \<and> RelType r = RelationshipTypeTargets)"
    unfolding t pn n by simp
  from h one two show ?thesis by (intro conjI)
qed

subsection \<open>ConfigMap usage of a Deployment\<close>























text \<open>The earlier ConfigMapProcessor joins the same three modes without sorting: with the keys
  delivered in insertion order the description of the example reads differently.\<close>

lemma legacy_usage_order_example:
  "legacyFindConfigMapUsageInPodTemplate (\<lambda>keys. keys) exThreeWays ''app-config''
     = (True, ''volume, environment variable, environment'')"
  by (simp add: legacyFindConfigMapUsageInPodTemplate_def usageTypesOf_def exThreeWays_def)

subsection \<open>Partial failures in the mapper\<close>

lemma runProcessors_effect:
  assumes "list_all returns outcomes"
  shows "runProcessors outcomes (errCh, m) =
     Inr (errCh @ List.map_filter returnedError outcomes,
          addRelationships (concat (map contribution outcomes)) m)"
  using assms
proof (induction outcomes arbitrary: errCh m)
  case Nil
  then show ?case by (simp add: addRelationships_def)
next
  case (Cons outcome outcomes)
  then obtain err rels where o: "outcome = Returned err rels"
    by (cases outcome) auto
  from Cons have IH: "\<And>errCh m. runProcessors outcomes (errCh, m) =
     Inr (errCh @ List.map_filter returnedError outcomes,
          addRelationships (concat (map contribution outcomes)) m)"
    by simp
  show ?case
    by (cases err) (simp_all add: o IH addRelationships_def)
qed

lemma processNamespace_effect:
  assumes "list_all returns (processors ns)"
  shows "\<exists>rm'. processNamespace processors ns rm = Inr (map_option snd (namespaceWarning processors ns), rm')
        \<and> Relationships (rm_resources rm')
            = Relationships (rm_resources rm) @ concat (map contribution (processors ns))
        \<and> Resources (rm_resources rm') = Resources (rm_resources rm)
        \<and> warnings rm' = warnings rm"
  using runProcessors_effect[OF assms, of "[]"]
  by (auto simp: processNamespace_def Let_def namespaceWarning_def addRelationships_def
        split: list.splits)

lemma namespacesLoop_effect:
  assumes "\<forall>ns \<in> set namespaces. list_all returns (processors ns)"
  shows "\<exists>rm'. namespacesLoop processors namespaces rm = Inr rm'
        \<and> Relationships (rm_resources rm')
            = Relationships (rm_resources rm)
              @ concat (map (\<lambda>ns. concat (map contribution (processors ns))) namespaces)
        \<and> Resources (rm_resources rm') = Resources (rm_resources rm)
        \<and> warnings rm' = warnings rm @ List.map_filter (namespaceWarning processors) namespaces"
  using assms
proof (induction namespaces arbitrary: rm)
  case Nil
  then show ?case by simp
next
  case (Cons ns namespaces)
  then have "list_all returns (processors ns)" by simp
  from processNamespace_effect[where processors=processors and ns=ns and rm=rm, OF this]
  obtain rm1 where
    p: "processNamespace processors ns rm
          = Inr (map_option snd (namespaceWarning processors ns), rm1)"
    and r: "Relationships (rm_resources rm1)
            = Relationships (rm_resources rm) @ concat (map contribution (processors ns))"
    and s: "Resources (rm_resources rm1) = Resources (rm_resources rm)"
    and w: "warnings rm1 = warnings rm"
    by blast
  from Cons have rest: "\<forall>ns \<in> set namespaces. list_all returns (processors ns)" by simp
  show ?case
  proof (cases "namespaceWarning processors ns")
    case None
    from Cons.IH[OF rest, of rm1] p r s w None show ?thesis
      by auto
  next
    case (Some nw)
    then have nw: "nw = (ns, snd nw)"
      by (auto simp: namespaceWarning_def split: list.splits)
    from Cons.IH[OF rest, of "rm1\<lparr>warnings := warnings rm1 @ [(ns, snd nw)]\<rparr>"] p r s w Some nw
    show ?thesis
      by auto
  qed
qed

lemma RenderClusterView_no_resources:
  assumes "Resources (resourceMapping v) = []"
  shows "\<exists>output. RenderClusterView v env = Inr output"
  using assms
  by (simp add: RenderClusterView_def renderWorkloadLayer_def filterResourcesByType_def)

lemma Visualize_no_resources:
  assumes "Resources (rm_resources rm) = []"
  shows "\<exists>output. Visualize cfg env rm = Inr (None, rm\<lparr>stdout := stdout rm @ output @ NL\<rparr>)"
proof -
  let ?viz = "NewVisualizer (rm_resources rm)"
  let ?viz' = "case cfg_VisualOptions cfg of
                   None \<Rightarrow> ?viz
                 | Some opts \<Rightarrow> ?viz\<lparr>showDetails := ShowDetails opts, colorOutput := ShowColors opts\<rparr>"
  have "Resources (resourceMapping ?viz') = []"
    using assms by (simp add: NewVisualizer_def split: option.splits)
  from RenderClusterView_no_resources[OF this, of env] obtain out where
    "RenderClusterView ?viz' env = Inr out" by blast
  then show ?thesis
    by (auto simp: Visualize_def Let_def)
qed

text \<open>Claim C2. Let the namespaces be resolved and let every processor return, with an error
  such as a failed list or without. Then \<open>Process\<close> returns no error, whatever the order in
  which the processors of a namespace take effect. The relationships of the mapping are
  those of the processors that returned no error, namespace by namespace: a processor that
  failed adds nothing, and the processors beside it in the same namespace and those of
  the other namespaces add all of theirs. Every namespace with a failed processor leaves one
  warning, which carries the first error sent.\<close>

theorem list_failure_is_a_warning:
  assumes "getNamespaces cfg c = Inr namespaces"
    and "\<forall>ns \<in> set namespaces. list_all returns (processors ns)"
  shows "\<exists>rm. Process cfg c env processors = Inr (None, rm)
        \<and> Relationships (rm_resources rm)
            = concat (map (\<lambda>ns. concat (map contribution (processors ns))) namespaces)
        \<and> warnings rm = List.map_filter (namespaceWarning processors) namespaces"
proof -
  from namespacesLoop_effect[OF assms(2), of NewResourceMapper] obtain rm1 where
    l: "namespacesLoop processors namespaces NewResourceMapper = Inr rm1"
    and r: "Relationships (rm_resources rm1)
            = concat (map (\<lambda>ns. concat (map contribution (processors ns))) namespaces)"
    and s: "Resources (rm_resources rm1) = []"
    and w: "warnings rm1 = List.map_filter (namespaceWarning processors) namespaces"
    by (auto simp: NewResourceMapper_def)
  from Visualize_no_resources[OF s, of cfg env] obtain out where
    v: "Visualize cfg env rm1 = Inr (None, rm1\<lparr>stdout := stdout rm1 @ out @ NL\<rparr>)"
    by blast
  have "Process cfg c env processors = Inr (None, rm1\<lparr>stdout := stdout rm1 @ out @ NL\<rparr>)"
    by (simp add: Process_def assms(1) l v)
  with r w show ?thesis by simp
qed

lemma legacyServiceProcess_example:
  "\<exists>p. legacyServiceProcess exNamespaces ''default'' NewProcessor = Inr p
       \<and> map Description (relations p)
           = [''exposes port 80'', ''exposes via app.example.com/a'',
              ''exposes via app.example.com/b'']"
  by (simp add: legacyServiceProcess_def legacyServiceBody_def legacyIngressPart_def
        ServicesList_def PodsList_def IngressesList_def callFails_def FormatLabelSelector_def
        labelsMatch_def exNamespaces_def exCluster_def exWebSvc_def exTwoPaths_def exPath_def
        exPod_def exPortHttp_def NewProcessor_def request_def Let_def showInt_def showNat.simps)

theorem list_failure_is_a_warning_witness:
  "getNamespaces exConfig exNamespaces = Inr [''restricted'', ''default'']
   \<and> list_all returns (exProcessors ''restricted'')
   \<and> list_all returns (exProcessors ''default'')
   \<and> (\<exists>rm. Process exConfig exNamespaces exEnv exProcessors = Inr (None, rm)
          \<and> map Description (Relationships (rm_resources rm))
              = [''exposes port 5432'', ''exposes port 80'', ''exposes via app.example.com/a'',
                 ''exposes via app.example.com/b'']
          \<and> warnings rm
              = [(''restricted'',
                  Errorf ''processor error''
                    (Errorf ''failed to list deployments'' (ApiError PermissionDenied)))])"
proof -
  have ns: "getNamespaces exConfig exNamespaces = Inr [''restricted'', ''default'']"
    by (simp add: getNamespaces_def exConfig_def NamespacesList_def callFails_def
          exNamespaces_def exCluster_def)
  from legacyServiceProcess_example obtain p where
    run: "legacyServiceProcess exNamespaces ''default'' NewProcessor = Inr p"
    and d: "map Description (relations p)
           = [''exposes port 80'', ''exposes via app.example.com/a'',
              ''exposes via app.example.com/b'']"
    by (elim exE conjE)
  have ret: "\<forall>ns \<in> set [''restricted'', ''default'']. list_all returns (exProcessors ns)"
    by (simp add: exProcessors_def run)
  from list_failure_is_a_warning [OF ns ret, of exEnv] obtain rm where
    pr: "Process exConfig exNamespaces exEnv exProcessors = Inr (None, rm)"
    and rel: "Relationships (rm_resources rm)
            = concat (map (\<lambda>ns. concat (map contribution (exProcessors ns)))
                        [''restricted'', ''default''])"
    and w: "warnings rm
            = List.map_filter (namespaceWarning exProcessors) [''restricted'', ''default'']"
    by (elim exE conjE)
  have r1: "map Description (Relationships (rm_resources rm))
          = [''exposes port 5432'', ''exposes port 80'', ''exposes via app.example.com/a'',
             ''exposes via app.example.com/b'']"
    by (simp add: rel exProcessors_def run d exRestrictedEdge_def exEdge_def)
  have w1: "warnings rm
      = [(''restricted'',
          Errorf ''processor error''
            (Errorf ''failed to list deployments'' (ApiError PermissionDenied)))]"
    by (simp add: w namespaceWarning_def exProcessors_def run)
  from ret have "list_all returns (exProcessors ''restricted'')"
    and "list_all returns (exProcessors ''default'')"
    by simp_all
  then show ?thesis
    using ns pr r1 w1 by (intro conjI exI[of _ rm])
qed

subsection \<open>Order and time in the rendering\<close>



lemma ColorizedPrintf_time [simp]:
  "ColorizedPrintf (env\<lparr>CurrentTime := t\<rparr>) = ColorizedPrintf env"
  by (simp add: ColorizedPrintf_def fun_eq_iff)

lemma formatResource_time [simp]:
  "formatResource (env\<lparr>CurrentTime := t\<rparr>) = formatResource env"
  by (simp add: formatResource_def fun_eq_iff)

lemma ingressRelLines_time [simp]:
  "ingressRelLines v (env\<lparr>CurrentTime := t\<rparr>) isLast rels = ingressRelLines v env isLast rels"
  by (induction rels) simp_all

lemma ingressItems_time [simp]:
  "ingressItems v (env\<lparr>CurrentTime := t\<rparr>) rs = ingressItems v env rs"
  by (induction rs) simp_all

lemma serviceRelLines_time [simp]:
  "serviceRelLines v (env\<lparr>CurrentTime := t\<rparr>) isLast rels = serviceRelLines v env isLast rels"
  by (induction rels) simp_all

lemma serviceItems_time [simp]:
  "serviceItems v (env\<lparr>CurrentTime := t\<rparr>) rs = serviceItems v env rs"
  by (induction rs) simp_all

lemma podRelLines_time [simp]:
  "podRelLines v (env\<lparr>CurrentTime := t\<rparr>) isLast rels = podRelLines v env isLast rels"
  by (induction rels) simp_all

lemma workloadItems_time [simp]:
  "workloadItems v (env\<lparr>CurrentTime := t\<rparr>) rs = workloadItems v env rs"
  by (induction rs) (simp_all split: sum.splits)

lemma storageRelLines_time [simp]:
  "storageRelLines v (env\<lparr>CurrentTime := t\<rparr>) isLast rels = storageRelLines v env isLast rels"
  by (induction rels) simp_all

lemma storageItems_time [simp]:
  "storageItems v (env\<lparr>CurrentTime := t\<rparr>) rs = storageItems v env rs"
  by (induction rs) simp_all




end
